theory Spec2Isabelle
  imports Complex_Main "HOL-Library.AList" "HOL-Library.Multiset"
begin

section \<open>Data model of \<open>src/models/match.player.ts\<close>\<close>

text \<open>
  A cell position is the pair of grid coordinates \<open>[x, y]\<close>. Ship types are the string
  values of the \<open>ShipType\<close> enumeration; they are the property names of the position
  objects. A JavaScript object with such (non-numeric) property names is modelled as an
  association list in property order: enumeration (\<open>for .. in\<close>, \<open>Object.keys\<close>,
  \<open>Object.values\<close>) walks the list, assignment to a property is \<open>AList.update\<close>
  (an existing property keeps its place, a new one is appended) and reading a property is
  \<open>map_of\<close>. An object has no property twice, so the lists that stand for objects have
  distinct keys.
\<close>

type_synonym CellPosition = "int \<times> int"

type_synonym ShipType = string

datatype Orientation = Horizontal | Vertical

text \<open>
  A \<open>number\<close> is an IEEE double: \<open>NaN\<close>, an infinity, or a finite value. The code
  below stores numbers and asks whether one is \<open>NaN\<close>; where it adds, the addition
  is the language's and is handed in. The sign of zero is not told apart.
\<close>

datatype number = NaN | PosInfinity | NegInfinity | Num real

text \<open>
  The score comes out of a cache entry, and the constructor tests it with \<open>isNaN\<close>, which
  takes any value. So a score is a value of the language: \<open>undefined\<close> (also what
  reading a missing property gives), \<open>null\<close>, a boolean, a number or a string. Arrays
  and objects are left out.
\<close>

datatype JSValue = Undefined | Null | Boolean bool | Number number | String string

text \<open>The prediction attached to an attack payload is opaque to this file.\<close>

type_synonym Prediction = string

record StoredShipDataCell =
  cell_origin :: CellPosition
  cell_hit :: bool
  cell_type :: ShipType

record AttackDataPayload =
  atk_origin :: CellPosition
  prediction :: "Prediction option"

text \<open>
  \<open>AttackResult\<close>: the miss \<open>{hit: false, origin}\<close>, or the hit
  \<open>{origin, hit: true, type, destroyed}\<close>.
\<close>

datatype AttackResult =
  Miss CellPosition
  | Hit CellPosition ShipType bool

fun result_hit :: "AttackResult \<Rightarrow> bool" where
  "result_hit (Miss origin) = False"
| "result_hit (Hit origin shipType destroyed) = True"

text \<open>Timestamps are what \<open>Date.now()\<close> gives: whole milliseconds.\<close>

record StoredAttackData =
  ts :: int
  attack :: AttackDataPayload
  result :: AttackResult

record StoredShipData =
  sunk :: bool
  ship_type :: ShipType
  ship_origin :: CellPosition
  ship_orientation :: Orientation
  cells :: "StoredShipDataCell list"

type_synonym PlayerPositionData = "(ShipType \<times> StoredShipData) list"

record OpponentPositionData =
  opp_valid :: bool
  opp_positions :: "(ShipType \<times> StoredShipData) list"

record MatchPlayerBoardData =
  valid :: bool
  positions :: PlayerPositionData

record MatchPlayerData =
  data_uuid :: string
  data_username :: string
  data_score :: JSValue
  data_isAi :: bool
  data_match :: string
  data_board :: MatchPlayerBoardData
  data_attacks :: "StoredAttackData list"

record MatchOpponentData =
  opp_username :: string
  opp_attacks :: "StoredAttackData list"
  opp_board :: OpponentPositionData

text \<open>
  One entry of \<open>ShipPositionData\<close>: where a ship of some type is placed. The declared
  type asks for the origin and the orientation; an object that has more properties is an
  entry all the same, and \<open>createPositionDataWithCells\<close> spreads the entry into the
  record it stores. Of such further properties \<open>sunk\<close> is the one that survives there
  (\<open>type\<close> and \<open>cells\<close> are written after the spread), so an entry says whether it
  carries one: \<open>None\<close> when it does not.
\<close>

record ShipPosition =
  pos_origin :: CellPosition
  pos_orientation :: Orientation
  pos_sunk :: "bool option"

type_synonym ShipPositionData = "(ShipType \<times> ShipPosition) list"

text \<open>
  The state of a \<open>MatchPlayer\<close> instance: its own fields, and the uuid that the
  constructor hands to the base class \<open>Model\<close>.
\<close>

record MatchPlayer =
  uuid :: string
  board :: MatchPlayerBoardData
  attacks :: "StoredAttackData list"
  username :: string
  isAi :: bool
  match :: string
  score :: JSValue

text \<open>
  The constructor's options. \<open>board\<close> and \<open>attacks\<close> are optional; \<open>score\<close> is
  declared a number and is whatever value the caller's data holds there.
\<close>

record MatchPlayerOpts =
  opts_username :: string
  opts_isAi :: bool
  opts_uuid :: string
  opts_match :: string
  opts_score :: JSValue
  opts_board :: "MatchPlayerBoardData option"
  opts_attacks :: "StoredAttackData list option"

section \<open>Collaborators that are not among the sources\<close>

text \<open>
  Modelled from the spec: \<open>isSameOrigin\<close> (imported from \<open>@app/utils\<close>) compares two
  cell positions by value.
\<close>

definition isSameOrigin :: "CellPosition \<Rightarrow> CellPosition \<Rightarrow> bool" where
  "isSameOrigin a b = (a = b)"

text \<open>
  The cell coverage function \<open>getCellCoverageForOriginOrientationAndArea\<close> and the table
  \<open>ShipSize\<close> are imported too. The functions below take them as the parameters
  \<open>getCellCoverage\<close> and \<open>ShipSize\<close>; the examples use \<open>expandCells\<close> for the first.
\<close>

text \<open>
  Modelled from the spec: \<open>expandCells\<close> is the coverage function
  \<open>getCellCoverageForOriginOrientationAndArea\<close> as the specification describes it: exactly
  as many cells as the size says, from the origin along the x axis when horizontal and
  along the y axis when vertical, in increasing order.
\<close>

definition expandCells :: "CellPosition \<Rightarrow> Orientation \<Rightarrow> nat \<Rightarrow> CellPosition list" where
  "expandCells origin orientation n =
     (case orientation of
        Horizontal \<Rightarrow> map (\<lambda>i. (fst origin + int i, snd origin)) [0..<n]
      | Vertical \<Rightarrow> map (\<lambda>i. (fst origin, snd origin + int i)) [0..<n])"

text \<open>
  The language's conversion of a string to a number gives \<open>NaN\<close> exactly when the
  string is not a \<open>StringNumericLiteral\<close>: white space around nothing at all, around a
  decimal literal (a sign, digits with a point, an exponent, or \<open>Infinity\<close>) or around
  an unsigned binary, octal or hexadecimal integer. Strings are read here as code units
  below 256.
\<close>

definition isStrWhiteSpaceChar :: "char \<Rightarrow> bool" where
  "isStrWhiteSpaceChar c =
     (c \<in> set [CHR 0x09, CHR 0x0A, CHR 0x0B, CHR 0x0C, CHR 0x0D, CHR 0x20, CHR 0xA0])"

definition trimString :: "string \<Rightarrow> string" where
  "trimString s = rev (dropWhile isStrWhiteSpaceChar (rev (dropWhile isStrWhiteSpaceChar s)))"

definition isDecimalDigit :: "char \<Rightarrow> bool" where
  "isDecimalDigit c = (c \<in> set ''0123456789'')"

definition isDecimalDigits :: "string \<Rightarrow> bool" where
  "isDecimalDigits ds = (ds \<noteq> [] \<and> list_all isDecimalDigit ds)"

fun isSignedInteger :: "string \<Rightarrow> bool" where
  "isSignedInteger [] = False"
| "isSignedInteger (c # ds) =
     (if c = CHR ''+'' \<or> c = CHR ''-'' then isDecimalDigits ds else isDecimalDigits (c # ds))"

fun isExponentPartOpt :: "string \<Rightarrow> bool" where
  "isExponentPartOpt [] = True"
| "isExponentPartOpt (c # r) = ((c = CHR ''e'' \<or> c = CHR ''E'') \<and> isSignedInteger r)"

definition isStrUnsignedDecimalLiteral :: "string \<Rightarrow> bool" where
  "isStrUnsignedDecimalLiteral s =
     (s = ''Infinity'' \<or>
      (let ds1 = takeWhile isDecimalDigit s; r1 = dropWhile isDecimalDigit s
       in case r1 of
            [] \<Rightarrow> ds1 \<noteq> []
          | c # r2 \<Rightarrow>
              if c = CHR ''.''
              then (let ds2 = takeWhile isDecimalDigit r2; r3 = dropWhile isDecimalDigit r2
                    in (ds1 \<noteq> [] \<or> ds2 \<noteq> []) \<and> isExponentPartOpt r3)
              else ds1 \<noteq> [] \<and> isExponentPartOpt r1))"

definition isStrDecimalLiteral :: "string \<Rightarrow> bool" where
  "isStrDecimalLiteral s =
     (case s of
        [] \<Rightarrow> False
      | c # r \<Rightarrow> if c = CHR ''+'' \<or> c = CHR ''-'' then isStrUnsignedDecimalLiteral r
                 else isStrUnsignedDecimalLiteral s)"

definition isNonDecimalIntegerLiteral :: "string \<Rightarrow> bool" where
  "isNonDecimalIntegerLiteral s =
     (case s of
        z # x # ds \<Rightarrow>
          z = CHR ''0'' \<and> ds \<noteq> [] \<and>
          ((x \<in> set ''bB'' \<and> list_all (\<lambda>d. d \<in> set ''01'') ds)
           \<or> (x \<in> set ''oO'' \<and> list_all (\<lambda>d. d \<in> set ''01234567'') ds)
           \<or> (x \<in> set ''xX'' \<and> list_all (\<lambda>d. d \<in> set ''0123456789abcdefABCDEF'') ds))
      | _ \<Rightarrow> False)"

definition isStringNumericLiteral :: "string \<Rightarrow> bool" where
  "isStringNumericLiteral s =
     (let t = trimString s
      in t = [] \<or> isStrDecimalLiteral t \<or> isNonDecimalIntegerLiteral t)"

text \<open>
  \<open>isNaN(x)\<close> converts its argument to a number and says whether that is \<open>NaN\<close>:
  \<open>undefined\<close> converts to \<open>NaN\<close>, \<open>null\<close> to 0, a boolean to 0 or 1, a string to
  the number it spells or else to \<open>NaN\<close>.
\<close>

fun isNaN :: "JSValue \<Rightarrow> bool" where
  "isNaN Undefined = True"
| "isNaN Null = False"
| "isNaN (Boolean b) = False"
| "isNaN (Number n) = (n = NaN)"
| "isNaN (String s) = (\<not> isStringNumericLiteral s)"

text \<open>
  \<open>Array.prototype.sort(compareFn)\<close> belongs to the host. It is modelled as an insertion
  sort: each element in turn is put in front of the first element it compares below
  (\<open>compareFn(x, y) < 0\<close>). Hosts agree with this on inputs that the comparison orders
  strictly; for elements that compare the same way in both directions the standard leaves the
  order to the host, and the model keeps them in their original order.
\<close>

fun insert_by :: "('a \<Rightarrow> 'a \<Rightarrow> int) \<Rightarrow> 'a \<Rightarrow> 'a list \<Rightarrow> 'a list" where
  "insert_by compareFn x [] = [x]"
| "insert_by compareFn x (y # ys) =
     (if compareFn x y < 0 then x # y # ys else y # insert_by compareFn x ys)"

definition array_sort :: "('a \<Rightarrow> 'a \<Rightarrow> int) \<Rightarrow> 'a list \<Rightarrow> 'a list" where
  "array_sort compareFn xs = foldl (\<lambda>acc x. insert_by compareFn x acc) [] xs"

section \<open>\<open>createPositionDataWithCells\<close>\<close>

text \<open>
  For each placement of \<open>data\<close>, in property order, the cells are those the coverage
  function returns for the ship type's size; the stored record is
  \<open>{sunk: false, ...shipData, type, cells}\<close> with every cell \<open>{hit: false, origin, type}\<close>.
  \<open>sunk: false\<close> stands before the spread, so it is what the record gets only when the
  entry has no \<open>sunk\<close> of its own. There is no check and no \<open>throw\<close>: the function
  returns for every input.
\<close>

definition createPositionDataWithCells ::
  "(CellPosition \<Rightarrow> Orientation \<Rightarrow> nat \<Rightarrow> CellPosition list) \<Rightarrow> (ShipType \<Rightarrow> nat)
    \<Rightarrow> ShipPositionData \<Rightarrow> PlayerPositionData" where
  "createPositionDataWithCells getCellCoverage ShipSize data =
     foldl (\<lambda>updated (shipType, shipData).
              let cells = getCellCoverage (pos_origin shipData) (pos_orientation shipData)
                            (ShipSize shipType)
              in AList.update shipType
                   \<lparr> sunk = (case pos_sunk shipData of None \<Rightarrow> False | Some b \<Rightarrow> b),
                     ship_type = shipType,
                     ship_origin = pos_origin shipData,
                     ship_orientation = pos_orientation shipData,
                     cells = map (\<lambda>origin. \<lparr> cell_origin = origin, cell_hit = False,
                                              cell_type = shipType \<rparr>) cells \<rparr>
                   updated)
       [] data"

section \<open>The class \<open>MatchPlayer\<close>\<close>

text \<open>
  The constructor. \<open>randomLayout\<close> is what \<open>getRandomShipLayout()\<close> returns; it is
  consulted only when no board is supplied. An array and an object are truthy, so a
  supplied \<open>attacks\<close> or \<open>board\<close> is adopted as it is.
\<close>

definition MatchPlayer_constructor ::
  "(CellPosition \<Rightarrow> Orientation \<Rightarrow> nat \<Rightarrow> CellPosition list) \<Rightarrow> (ShipType \<Rightarrow> nat)
    \<Rightarrow> ShipPositionData \<Rightarrow> MatchPlayerOpts \<Rightarrow> MatchPlayer" where
  "MatchPlayer_constructor getCellCoverage ShipSize randomLayout opts =
     \<lparr> uuid = opts_uuid opts,
       board = (case opts_board opts of
                  Some b \<Rightarrow> b
                | None \<Rightarrow> \<lparr> valid = False,
                            positions = createPositionDataWithCells getCellCoverage ShipSize
                                          randomLayout \<rparr>),
       attacks = (case opts_attacks opts of Some as \<Rightarrow> as | None \<Rightarrow> []),
       username = opts_username opts,
       isAi = opts_isAi opts,
       match = opts_match opts,
       score = (if isNaN (opts_score opts) then Number (Num 0) else opts_score opts) \<rparr>"

text \<open>\<open>MatchPlayer.from(data)\<close> is \<open>new MatchPlayer(data)\<close>: every field of \<open>data\<close> is present.\<close>

definition MatchPlayer_from ::
  "(CellPosition \<Rightarrow> Orientation \<Rightarrow> nat \<Rightarrow> CellPosition list) \<Rightarrow> (ShipType \<Rightarrow> nat)
    \<Rightarrow> ShipPositionData \<Rightarrow> MatchPlayerData \<Rightarrow> MatchPlayer" where
  "MatchPlayer_from getCellCoverage ShipSize randomLayout data =
     MatchPlayer_constructor getCellCoverage ShipSize randomLayout
       \<lparr> opts_username = data_username data,
         opts_isAi = data_isAi data,
         opts_uuid = data_uuid data,
         opts_match = data_match data,
         opts_score = data_score data,
         opts_board = Some (data_board data),
         opts_attacks = Some (data_attacks data) \<rparr>"

subsection \<open>Queries\<close>

text \<open>
  Modelled from the spec: \<open>getUUID\<close> belongs to the base class \<open>Model\<close>, which is not
  among the sources; it returns the uuid the player was constructed with (the player's
  identity is its uuid and username).
\<close>

definition getUUID :: "MatchPlayer \<Rightarrow> string" where
  "getUUID this = uuid this"

definition isAiPlayer :: "MatchPlayer \<Rightarrow> bool" where
  "isAiPlayer this = isAi this"

definition hasAttacked :: "MatchPlayer \<Rightarrow> bool" where
  "hasAttacked this = (length (attacks this) > 0)"

definition hasAttackedLocation :: "MatchPlayer \<Rightarrow> CellPosition \<Rightarrow> bool" where
  "hasAttackedLocation this origin =
     (find (\<lambda>a. isSameOrigin (atk_origin (attack a)) origin) (attacks this) \<noteq> None)"


definition hasLockedValidShipPositions :: "MatchPlayer \<Rightarrow> bool" where
  "hasLockedValidShipPositions this = valid (board this)"

definition getUsername :: "MatchPlayer \<Rightarrow> string" where
  "getUsername this = username this"

definition getMatchInstanceUUID :: "MatchPlayer \<Rightarrow> string" where
  "getMatchInstanceUUID this = match this"

definition getShotsFiredCount :: "MatchPlayer \<Rightarrow> nat" where
  "getShotsFiredCount this = length (attacks this)"

definition getScore :: "MatchPlayer \<Rightarrow> JSValue" where
  "getScore this = score this"

subsection \<open>\<open>getContinuousHitsCount\<close>\<close>

text \<open>The comparison handed to \<open>sort\<close>: \<open>(a, b) => (a.ts > b.ts ? -1 : 1)\<close>.\<close>

definition compareTs :: "StoredAttackData \<Rightarrow> StoredAttackData \<Rightarrow> int" where
  "compareTs a b = (if ts a > ts b then - 1 else 1)"

definition attacksInTimeOrder :: "MatchPlayer \<Rightarrow> StoredAttackData list" where
  "attacksInTimeOrder this = array_sort compareTs (attacks this)"

text \<open>The counting loop: one more for each hit, \<open>break\<close> at the first miss.\<close>

fun countHits :: "StoredAttackData list \<Rightarrow> nat \<Rightarrow> nat" where
  "countHits [] n = n"
| "countHits (atk # rest) n =
     (if result_hit (result atk) then countHits rest (n + 1) else n)"

definition getContinuousHitsCount :: "MatchPlayer \<Rightarrow> nat" where
  "getContinuousHitsCount this = countHits (attacksInTimeOrder this) 0"

subsection \<open>Mutators\<close>

definition setMatchInstanceUUID :: "string \<Rightarrow> MatchPlayer \<Rightarrow> MatchPlayer" where
  "setMatchInstanceUUID u this = this\<lparr> match := u \<rparr>"

text \<open>
  \<open>incrementScoreBy\<close> is \<open>this.score += amount\<close>. The operator \<open>+\<close> is the
  language's (addition of doubles, or concatenation when the score is a string); it is the
  parameter \<open>addition\<close>.
\<close>

definition incrementScoreBy ::
  "(JSValue \<Rightarrow> JSValue \<Rightarrow> JSValue) \<Rightarrow> JSValue \<Rightarrow> MatchPlayer \<Rightarrow> JSValue \<times> MatchPlayer" where
  "incrementScoreBy addition amount this =
     (let s = addition (score this) amount in (s, this\<lparr> score := s \<rparr>))"

definition setShipPositionData ::
  "(CellPosition \<Rightarrow> Orientation \<Rightarrow> nat \<Rightarrow> CellPosition list) \<Rightarrow> (ShipType \<Rightarrow> nat)
    \<Rightarrow> ShipPositionData \<Rightarrow> bool \<Rightarrow> MatchPlayer \<Rightarrow> MatchPlayer" where
  "setShipPositionData getCellCoverage ShipSize data v this =
     this\<lparr> board := \<lparr> valid = v,
                      positions = createPositionDataWithCells getCellCoverage ShipSize data \<rparr> \<rparr>"

text \<open>\<open>recordAttackResult\<close> pushes a record stamped with the clock's reading \<open>now\<close>.\<close>

definition recordAttackResult ::
  "int \<Rightarrow> AttackDataPayload \<Rightarrow> AttackResult \<Rightarrow> MatchPlayer \<Rightarrow> MatchPlayer" where
  "recordAttackResult now atk res this =
     this\<lparr> attacks := attacks this @ [\<lparr> ts = now, attack = atk, result = res \<rparr>] \<rparr>"

subsection \<open>\<open>determineAttackResult\<close>\<close>

text \<open>
  \<open>hitCell.hit = true\<close> writes into the cell that \<open>find\<close> returned, which is the first
  cell of the ship at the attacked origin.
\<close>

fun markHit :: "CellPosition \<Rightarrow> StoredShipDataCell list \<Rightarrow> StoredShipDataCell list" where
  "markHit origin [] = []"
| "markHit origin (c # cs) =
     (if isSameOrigin (cell_origin c) origin then c\<lparr> cell_hit := True \<rparr> # cs
      else c # markHit origin cs)"

text \<open>
  The loop over the ships in property order. A sunk ship is skipped; so is a ship without
  a cell at the origin. The first other ship takes the hit: its cell is marked,
  \<open>destroyed\<close> is the \<open>reduce\<close> over the cells' hit flags, the ship is marked sunk when
  destroyed, and the result is \<open>{...hitCell, destroyed}\<close>. When the loop runs out the
  result is the miss.
\<close>

fun attackShips ::
  "PlayerPositionData \<Rightarrow> CellPosition \<Rightarrow> AttackResult \<times> PlayerPositionData" where
  "attackShips [] origin = (Miss origin, [])"
| "attackShips ((key, ship) # rest) origin =
     (if \<not> sunk ship then
        (case find (\<lambda>c. isSameOrigin (cell_origin c) origin) (cells ship) of
           Some hitCell \<Rightarrow>
             (let cells' = markHit origin (cells ship);
                  destroyed = foldl (\<lambda>d v. d \<and> cell_hit v) True cells';
                  ship' = ship\<lparr> cells := cells', sunk := (if destroyed then True else sunk ship) \<rparr>
              in (Hit (cell_origin hitCell) (cell_type hitCell) destroyed, (key, ship') # rest))
         | None \<Rightarrow>
             (let (r, rest') = attackShips rest origin in (r, (key, ship) # rest')))
      else (let (r, rest') = attackShips rest origin in (r, (key, ship) # rest')))"

definition determineAttackResult ::
  "MatchPlayer \<Rightarrow> AttackDataPayload \<Rightarrow> AttackResult \<times> MatchPlayer" where
  "determineAttackResult this atk =
     (let (r, positions') = attackShips (positions (board this)) (atk_origin atk)
      in (r, this\<lparr> board := (board this)\<lparr> positions := positions' \<rparr> \<rparr>))"

subsection \<open>\<open>toOpponentJSON\<close> and \<open>toJSON\<close>\<close>

text \<open>
  The board of the opponent's view gets the sunk ships, each under its own \<open>type\<close>.
  In the callback of \<open>attacks.map\<close>, \<open>a\<close> is the stored record and \<open>atk = {...a}\<close> is
  a copy of its top level only: \<open>atk.attack\<close> and \<open>a.attack\<close> are one object, and
  \<open>delete a.attack.prediction\<close> removes the property from it. So the prediction is gone from
  the returned records and from the stored ones; the function returns the view together
  with the player's state after the call.
\<close>

text \<open>The callback of \<open>forEach\<close>: a ship is revealed only if sunk.\<close>

definition reveal ::
  "(ShipType \<times> StoredShipData) list \<Rightarrow> StoredShipData \<Rightarrow> (ShipType \<times> StoredShipData) list" where
  "reveal shown ship = (if sunk ship then AList.update (ship_type ship) ship shown else shown)"

definition toOpponentJSON :: "MatchPlayer \<Rightarrow> MatchOpponentData \<times> MatchPlayer" where
  "toOpponentJSON this =
     (let board' = \<lparr> opp_valid = valid (board this),
                     opp_positions = foldl reveal [] (map snd (positions (board this))) \<rparr>;
          attacks' = map (\<lambda>a. a\<lparr> attack := (attack a)\<lparr> prediction := None \<rparr> \<rparr>) (attacks this)
      in (\<lparr> opp_username = username this, opp_attacks = attacks', opp_board = board' \<rparr>,
          this\<lparr> attacks := attacks' \<rparr>))"

definition toJSON :: "MatchPlayer \<Rightarrow> MatchPlayerData" where
  "toJSON this =
     \<lparr> data_uuid = getUUID this,
       data_username = username this,
       data_score = score this,
       data_isAi = isAi this,
       data_match = getMatchInstanceUUID this,
       data_board = board this,
       data_attacks = attacks this \<rparr>"

section \<open>Notions used in the statements\<close>

text \<open>A ship takes the hit at an origin when it is not sunk and has a cell there.\<close>

definition takesHit :: "CellPosition \<Rightarrow> StoredShipData \<Rightarrow> bool" where
  "takesHit origin ship =
     (\<not> sunk ship \<and> list_ex (\<lambda>c. isSameOrigin (cell_origin c) origin) (cells ship))"

text \<open>
  A ship after its \<open>j\<close>-th cell was hit: that cell's flag is set, and the ship is sunk
  exactly when all its cells are hit now.
\<close>

definition hitShip :: "StoredShipData \<Rightarrow> nat \<Rightarrow> StoredShipData" where
  "hitShip ship j =
     (let cells' = (cells ship)[j := (cells ship ! j)\<lparr> cell_hit := True \<rparr>]
      in ship\<lparr> cells := cells', sunk := list_all cell_hit cells' \<rparr>)"



text \<open>
  The attack history with the most recent attack first: ordered by falling timestamp,
  attacks of one timestamp in the order they were recorded.
\<close>

definition mostRecentFirst :: "StoredAttackData list \<Rightarrow> StoredAttackData list" where
  "mostRecentFirst history = sort_key (\<lambda>a. - ts a) history"

text \<open>
  The calls on a player that touch the board or the history, and the match identifier.
  \<open>Query\<close> stands for the getters and \<open>toJSON\<close>, which leave the player as it is;
  \<open>recordAttackResult\<close> comes with the reading of the clock. \<open>performAll\<close> makes the
  calls of a list, one after the other.
\<close>

datatype Operation =
  SetShipPositionData ShipPositionData bool
  | DetermineAttackResult AttackDataPayload
  | RecordAttackResult int AttackDataPayload AttackResult
  | SetMatchInstanceUUID string
  | ToOpponentJSON
  | Query

fun perform ::
  "(CellPosition \<Rightarrow> Orientation \<Rightarrow> nat \<Rightarrow> CellPosition list) \<Rightarrow> (ShipType \<Rightarrow> nat)
    \<Rightarrow> MatchPlayer \<Rightarrow> Operation \<Rightarrow> MatchPlayer" where
  "perform getCellCoverage ShipSize this (SetShipPositionData data v) =
     setShipPositionData getCellCoverage ShipSize data v this"
| "perform getCellCoverage ShipSize this (DetermineAttackResult atk) =
     snd (determineAttackResult this atk)"
| "perform getCellCoverage ShipSize this (RecordAttackResult now atk res) =
     recordAttackResult now atk res this"
| "perform getCellCoverage ShipSize this (SetMatchInstanceUUID u) = setMatchInstanceUUID u this"
| "perform getCellCoverage ShipSize this ToOpponentJSON = snd (toOpponentJSON this)"
| "perform getCellCoverage ShipSize this Query = this"

definition performAll ::
  "(CellPosition \<Rightarrow> Orientation \<Rightarrow> nat \<Rightarrow> CellPosition list) \<Rightarrow> (ShipType \<Rightarrow> nat)
    \<Rightarrow> MatchPlayer \<Rightarrow> Operation list \<Rightarrow> MatchPlayer" where
  "performAll getCellCoverage ShipSize this ops = foldl (perform getCellCoverage ShipSize) this ops"



section \<open>Example inputs\<close>

text \<open>A size table for the examples: a battleship has three cells, any other ship two.\<close>

definition exampleSizes :: "ShipType \<Rightarrow> nat" where
  "exampleSizes shipType = (if shipType = ''Battleship'' then 3 else 2)"

definition exampleLayout :: ShipPositionData where
  "exampleLayout = [(''Destroyer'', \<lparr> pos_origin = (0, 0), pos_orientation = Horizontal, pos_sunk = None \<rparr>)]"

definition exampleAttacks :: "StoredAttackData list" where
  "exampleAttacks =
     [\<lparr> ts = 10, attack = \<lparr> atk_origin = (4, 4), prediction = None \<rparr>, result = Miss (4, 4) \<rparr>,
      \<lparr> ts = 30, attack = \<lparr> atk_origin = (3, 2), prediction = Some ''0.8'' \<rparr>,
        result = Hit (3, 2) ''Submarine'' True \<rparr>,
      \<lparr> ts = 20, attack = \<lparr> atk_origin = (3, 1), prediction = None \<rparr>,
        result = Hit (3, 1) ''Submarine'' False \<rparr>]"

definition exampleOpts :: MatchPlayerOpts where
  "exampleOpts =
     \<lparr> opts_username = ''East Voice'', opts_isAi = False, opts_uuid = ''B03o3v2L'',
       opts_match = ''q5-66RXu'', opts_score = Undefined, opts_board = None,
       opts_attacks = Some exampleAttacks \<rparr>"

text \<open>
  A player constructed without a board: the layout puts a two-cell destroyer at
  \<open>(0, 0)\<close>, horizontally.
\<close>

definition examplePlayer :: MatchPlayer where
  "examplePlayer = MatchPlayer_constructor expandCells exampleSizes exampleLayout exampleOpts"


text \<open>
  A destroyer and a submarine apart from each other. In \<open>fleetPlayer\<close> the destroyer is
  sunk and the submarine has one cell left.
\<close>

definition fleetLayout :: ShipPositionData where
  "fleetLayout =
     [(''Destroyer'', \<lparr> pos_origin = (0, 0), pos_orientation = Horizontal, pos_sunk = None \<rparr>),
      (''Submarine'', \<lparr> pos_origin = (0, 2), pos_orientation = Horizontal, pos_sunk = None \<rparr>)]"

definition fleetPlayer :: MatchPlayer where
  "fleetPlayer =
     performAll expandCells exampleSizes examplePlayer
       [SetShipPositionData fleetLayout True,
        DetermineAttackResult \<lparr> atk_origin = (0, 0), prediction = None \<rparr>,
        DetermineAttackResult \<lparr> atk_origin = (1, 0), prediction = None \<rparr>,
        DetermineAttackResult \<lparr> atk_origin = (0, 2), prediction = None \<rparr>]"

text \<open>
  A placement that was not validated: the destroyer and the submarine both cover
  \<open>(0, 0)\<close>. In \<open>overlapPlayer\<close> the submarine's other cell has been hit.
\<close>

definition overlapLayout :: ShipPositionData where
  "overlapLayout =
     [(''Destroyer'', \<lparr> pos_origin = (0, 0), pos_orientation = Horizontal, pos_sunk = None \<rparr>),
      (''Submarine'', \<lparr> pos_origin = (0, 0), pos_orientation = Vertical, pos_sunk = None \<rparr>)]"

definition overlapPlayer :: MatchPlayer where
  "overlapPlayer =
     performAll expandCells exampleSizes examplePlayer
       [SetShipPositionData overlapLayout False,
        DetermineAttackResult \<lparr> atk_origin = (0, 1), prediction = None \<rparr>]"




section \<open>Auxiliary facts\<close>

lemma foldl_conj: "foldl (\<lambda>d v. d \<and> P v) b xs = (b \<and> list_all P xs)"
  by (induction xs arbitrary: b) auto

lemma expandCells_two:
  "expandCells (x, y) Horizontal 2 = [(x, y), (x + 1, y)]"
  "expandCells (x, y) Vertical 2 = [(x, y), (x, y + 1)]"
  by (simp_all add: expandCells_def upt_rec)

lemma examplePlayer_board:
  "board examplePlayer =
     \<lparr> valid = False,
       positions =
         [(''Destroyer'',
           \<lparr> sunk = False, ship_type = ''Destroyer'', ship_origin = (0, 0),
             ship_orientation = Horizontal,
             cells = [\<lparr> cell_origin = (0, 0), cell_hit = False, cell_type = ''Destroyer'' \<rparr>,
                      \<lparr> cell_origin = (1, 0), cell_hit = False, cell_type = ''Destroyer'' \<rparr>] \<rparr>)] \<rparr>"
  by (simp add: examplePlayer_def MatchPlayer_constructor_def exampleOpts_def exampleLayout_def
      createPositionDataWithCells_def expandCells_two exampleSizes_def)

subsection \<open>The loop of \<open>determineAttackResult\<close>\<close>

lemma markHit_at:
  "j < length cs \<Longrightarrow> isSameOrigin (cell_origin (cs ! j)) origin
   \<Longrightarrow> \<forall>j'<j. \<not> isSameOrigin (cell_origin (cs ! j')) origin
   \<Longrightarrow> markHit origin cs = cs[j := (cs ! j)\<lparr> cell_hit := True \<rparr>]"
proof (induction cs arbitrary: j)
  case Nil
  then show ?case by simp
next
  case (Cons c cs)
  show ?case
  proof (cases j)
    case 0
    with Cons.prems show ?thesis by simp
  next
    case (Suc m)
    have head: "\<not> isSameOrigin (cell_origin c) origin"
      using Cons.prems(3) Suc by auto
    have "\<forall>j'<m. \<not> isSameOrigin (cell_origin (cs ! j')) origin"
      using Cons.prems(3) Suc by auto
    with Cons.IH[of m] Cons.prems Suc
    have "markHit origin cs = cs[m := (cs ! m)\<lparr> cell_hit := True \<rparr>]"
      by simp
    with head Suc show ?thesis by simp
  qed
qed

lemma find_at:
  "j < length cs \<Longrightarrow> P (cs ! j) \<Longrightarrow> \<forall>j'<j. \<not> P (cs ! j') \<Longrightarrow> find P cs = Some (cs ! j)"
  by (auto simp: find_Some_iff)

text \<open>A ship that does not take the hit is passed over.\<close>

lemma attackShips_skip:
  "\<not> takesHit origin ship \<Longrightarrow>
   attackShips ((key, ship) # rest) origin =
     (fst (attackShips rest origin), (key, ship) # snd (attackShips rest origin))"
proof (cases "sunk ship")
  case True
  then show ?thesis by (simp split: prod.splits)
next
  case False
  assume "\<not> takesHit origin ship"
  with False have "find (\<lambda>c. isSameOrigin (cell_origin c) origin) (cells ship) = None"
    by (simp add: takesHit_def list_ex_iff find_None_iff)
  with False show ?thesis by (simp split: prod.splits)
qed

text \<open>A ship that is not sunk and has a cell at the origin takes the hit in its first such cell.\<close>

lemma attackShips_take:
  assumes "\<not> sunk ship" "j < length (cells ship)"
    "isSameOrigin (cell_origin (cells ship ! j)) origin"
    "\<forall>j'<j. \<not> isSameOrigin (cell_origin (cells ship ! j')) origin"
  shows "attackShips ((key, ship) # rest) origin =
     (Hit (cell_origin (cells ship ! j)) (cell_type (cells ship ! j))
        (list_all cell_hit (cells (hitShip ship j))),
      (key, hitShip ship j) # rest)"
proof -
  have f: "find (\<lambda>c. isSameOrigin (cell_origin c) origin) (cells ship) = Some (cells ship ! j)"
    using assms by (intro find_at) auto
  have m: "markHit origin (cells ship) = (cells ship)[j := (cells ship ! j)\<lparr> cell_hit := True \<rparr>]"
    using assms by (intro markHit_at) auto
  show ?thesis
    using assms(1) by (simp add: f m foldl_conj hitShip_def Let_def)
qed

lemma attackShips_at:
  assumes "i < length ps" "\<forall>i'<i. \<not> takesHit origin (snd (ps ! i'))"
    "\<not> sunk (snd (ps ! i))" "j < length (cells (snd (ps ! i)))"
    "isSameOrigin (cell_origin (cells (snd (ps ! i)) ! j)) origin"
    "\<forall>j'<j. \<not> isSameOrigin (cell_origin (cells (snd (ps ! i)) ! j')) origin"
  shows "attackShips ps origin =
     (Hit (cell_origin (cells (snd (ps ! i)) ! j)) (cell_type (cells (snd (ps ! i)) ! j))
        (list_all cell_hit (cells (hitShip (snd (ps ! i)) j))),
      ps[i := (fst (ps ! i), hitShip (snd (ps ! i)) j)])"
  using assms
proof (induction ps arbitrary: i)
  case Nil
  then show ?case by simp
next
  case (Cons x ps)
  obtain key ship where x: "x = (key, ship)" by (cases x)
  show ?case
  proof (cases i)
    case 0
    with Cons.prems x show ?thesis
      using attackShips_take[of ship j origin key ps] by simp
  next
    case (Suc m)
    have skip: "\<not> takesHit origin ship"
      using Cons.prems(2) Suc x by auto
    have "\<forall>i'<m. \<not> takesHit origin (snd (ps ! i'))"
      using Cons.prems(2) Suc by auto
    with Cons.IH[of m] Cons.prems Suc
    have "attackShips ps origin =
       (Hit (cell_origin (cells (snd (ps ! m)) ! j)) (cell_type (cells (snd (ps ! m)) ! j))
          (list_all cell_hit (cells (hitShip (snd (ps ! m)) j))),
        ps[m := (fst (ps ! m), hitShip (snd (ps ! m)) j)])"
      by simp
    with skip x Suc show ?thesis
      by (simp add: attackShips_skip del: attackShips.simps)
  qed
qed

lemma attackShips_none:
  "\<forall>i<length ps. \<not> takesHit origin (snd (ps ! i)) \<Longrightarrow> attackShips ps origin = (Miss origin, ps)"
proof (induction ps)
  case Nil
  show ?case by simp
next
  case (Cons x ps)
  obtain key ship where x: "x = (key, ship)" by (cases x)
  have "\<not> takesHit origin ship" using Cons.prems x by auto
  moreover have "\<forall>i<length ps. \<not> takesHit origin (snd (ps ! i))"
    using Cons.prems by auto
  then have "attackShips ps origin = (Miss origin, ps)"
    by (rule Cons.IH)
  ultimately show ?case using x by (simp add: attackShips_skip del: attackShips.simps)
qed

text \<open>Either no ship takes the hit, or there is a first one, with a first cell at the origin.\<close>

lemma attackShips_cases:
  "(\<forall>i<length ps. \<not> takesHit origin (snd (ps ! i)))
   \<or> (\<exists>i j. i < length ps \<and> (\<forall>i'<i. \<not> takesHit origin (snd (ps ! i')))
          \<and> \<not> sunk (snd (ps ! i)) \<and> j < length (cells (snd (ps ! i)))
          \<and> isSameOrigin (cell_origin (cells (snd (ps ! i)) ! j)) origin
          \<and> (\<forall>j'<j. \<not> isSameOrigin (cell_origin (cells (snd (ps ! i)) ! j')) origin))"
proof (cases "\<exists>i. i < length ps \<and> takesHit origin (snd (ps ! i))")
  case False
  then show ?thesis by blast
next
  case True
  then obtain i where i: "i < length ps" "takesHit origin (snd (ps ! i))"
    and least_i: "\<forall>i'<i. \<not> (i' < length ps \<and> takesHit origin (snd (ps ! i')))"
    using exists_least_iff[of "\<lambda>i. i < length ps \<and> takesHit origin (snd (ps ! i))"] by blast
  let ?cs = "cells (snd (ps ! i))"
  from i(2) have ns: "\<not> sunk (snd (ps ! i))"
    and "\<exists>j. j < length ?cs \<and> isSameOrigin (cell_origin (?cs ! j)) origin"
    by (auto simp: takesHit_def list_ex_iff in_set_conv_nth)
  then obtain j where j: "j < length ?cs" "isSameOrigin (cell_origin (?cs ! j)) origin"
    and least_j: "\<forall>j'<j. \<not> (j' < length ?cs \<and> isSameOrigin (cell_origin (?cs ! j')) origin)"
    using exists_least_iff[of "\<lambda>j. j < length ?cs \<and> isSameOrigin (cell_origin (?cs ! j)) origin"]
    by blast
  have "\<forall>i'<i. \<not> takesHit origin (snd (ps ! i'))"
    using least_i i(1) by auto
  moreover have "\<forall>j'<j. \<not> isSameOrigin (cell_origin (?cs ! j')) origin"
    using least_j j(1) by auto
  ultimately show ?thesis using i(1) ns j by blast
qed

lemma determineAttackResult_attackShips:
  "determineAttackResult this atk =
     (fst (attackShips (positions (board this)) (atk_origin atk)),
      this\<lparr> board := (board this)
        \<lparr> positions := snd (attackShips (positions (board this)) (atk_origin atk)) \<rparr> \<rparr>)"
  by (simp add: determineAttackResult_def case_prod_unfold Let_def)

subsection \<open>The example players\<close>

lemma examplePlayer_attacks: "attacks examplePlayer = exampleAttacks"
  by (simp add: examplePlayer_def MatchPlayer_constructor_def exampleOpts_def)

lemma fleetPlayer_positions:
  "positions (board fleetPlayer) =
     [(''Destroyer'',
       \<lparr> sunk = True, ship_type = ''Destroyer'', ship_origin = (0, 0),
         ship_orientation = Horizontal,
         cells = [\<lparr> cell_origin = (0, 0), cell_hit = True, cell_type = ''Destroyer'' \<rparr>,
                  \<lparr> cell_origin = (1, 0), cell_hit = True, cell_type = ''Destroyer'' \<rparr>] \<rparr>),
      (''Submarine'',
       \<lparr> sunk = False, ship_type = ''Submarine'', ship_origin = (0, 2),
         ship_orientation = Horizontal,
         cells = [\<lparr> cell_origin = (0, 2), cell_hit = True, cell_type = ''Submarine'' \<rparr>,
                  \<lparr> cell_origin = (1, 2), cell_hit = False, cell_type = ''Submarine'' \<rparr>] \<rparr>)]"
  by (simp add: fleetPlayer_def performAll_def setShipPositionData_def fleetLayout_def
      createPositionDataWithCells_def expandCells_two exampleSizes_def
      determineAttackResult_def isSameOrigin_def)

lemma overlapPlayer_positions:
  "positions (board overlapPlayer) =
     [(''Destroyer'',
       \<lparr> sunk = False, ship_type = ''Destroyer'', ship_origin = (0, 0),
         ship_orientation = Horizontal,
         cells = [\<lparr> cell_origin = (0, 0), cell_hit = False, cell_type = ''Destroyer'' \<rparr>,
                  \<lparr> cell_origin = (1, 0), cell_hit = False, cell_type = ''Destroyer'' \<rparr>] \<rparr>),
      (''Submarine'',
       \<lparr> sunk = False, ship_type = ''Submarine'', ship_origin = (0, 0),
         ship_orientation = Vertical,
         cells = [\<lparr> cell_origin = (0, 0), cell_hit = False, cell_type = ''Submarine'' \<rparr>,
                  \<lparr> cell_origin = (0, 1), cell_hit = True, cell_type = ''Submarine'' \<rparr>] \<rparr>)]"
  by (simp add: overlapPlayer_def performAll_def setShipPositionData_def overlapLayout_def
      createPositionDataWithCells_def expandCells_two exampleSizes_def
      determineAttackResult_def isSameOrigin_def)


subsection \<open>What \<open>createPositionDataWithCells\<close> stores\<close>


subsection \<open>Sunk ships and hit cells\<close>






lemma hitShip_consistent: "sunk (hitShip ship j) = list_all cell_hit (cells (hitShip ship j))"
  by (simp add: hitShip_def Let_def)




lemma incrementScoreBy_board: "board (snd (incrementScoreBy addition amount this)) = board this"
  by (simp add: incrementScoreBy_def Let_def)


subsection \<open>The sort and the counting loop\<close>

lemma countHits_takeWhile:
  "countHits xs n = n + length (takeWhile (\<lambda>a. result_hit (result a)) xs)"
  by (induction xs arbitrary: n) simp_all

lemma mset_insert_by: "mset (insert_by compareFn x ys) = add_mset x (mset ys)"
  by (induction ys) simp_all

lemma set_insert_by: "set (insert_by compareFn x ys) = insert x (set ys)"
  by (induction ys) auto

lemma sorted_insert_by:
  "sorted (map (\<lambda>a. - ts a) ys) \<Longrightarrow> sorted (map (\<lambda>a. - ts a) (insert_by compareTs x ys))"
  by (induction ys) (auto simp: compareTs_def set_insert_by)

text \<open>An attack is put behind the attacks of its own timestamp.\<close>

lemma filter_insert_by:
  "sorted (map (\<lambda>a. - ts a) ys) \<Longrightarrow>
   filter (\<lambda>z. t = ts z) (insert_by compareTs x ys) =
     filter (\<lambda>z. t = ts z) ys @ (if t = ts x then [x] else [])"
proof (induction ys)
  case Nil
  show ?case by simp
next
  case (Cons y ys)
  show ?case
  proof (cases "ts x > ts y")
    case True
    then have "\<forall>z \<in> set (y # ys). ts z < ts x"
      using Cons.prems by auto
    then have "t = ts x \<Longrightarrow> filter (\<lambda>z. t = ts z) (y # ys) = []"
      by (auto simp: filter_empty_conv)
    moreover have "insert_by compareTs x (y # ys) = x # y # ys"
      using True by (simp add: compareTs_def)
    ultimately show ?thesis by auto
  next
    case False
    then have i: "insert_by compareTs x (y # ys) = y # insert_by compareTs x ys"
      by (simp add: compareTs_def)
    have "sorted (map (\<lambda>a. - ts a) ys)" using Cons.prems by simp
    then have "filter (\<lambda>z. t = ts z) (insert_by compareTs x ys) =
       filter (\<lambda>z. t = ts z) ys @ (if t = ts x then [x] else [])"
      by (rule Cons.IH)
    then show ?thesis unfolding i by auto
  qed
qed

lemma array_sort_snoc:
  "array_sort compareFn (xs @ [x]) = insert_by compareFn x (array_sort compareFn xs)"
  by (simp add: array_sort_def)

lemma array_sort_props:
  "mset (array_sort compareTs xs) = mset xs
   \<and> sorted (map (\<lambda>a. - ts a) (array_sort compareTs xs))
   \<and> (\<forall>t. filter (\<lambda>z. t = ts z) (array_sort compareTs xs) = filter (\<lambda>z. t = ts z) xs)"
proof (induction xs rule: rev_induct)
  case Nil
  show ?case by (simp add: array_sort_def)
next
  case (snoc x xs)
  then show ?case
    by (simp add: array_sort_snoc mset_insert_by sorted_insert_by filter_insert_by)
qed

lemma attacksInTimeOrder_mostRecentFirst:
  "attacksInTimeOrder this = mostRecentFirst (attacks this)"
proof -
  have "sort_key (\<lambda>a. - ts a) (attacks this) = array_sort compareTs (attacks this)"
    using array_sort_props[of "attacks this"]
    by (intro properties_for_sort_key) auto
  then show ?thesis
    by (simp add: attacksInTimeOrder_def mostRecentFirst_def)
qed

text \<open>\<open>mostRecentFirst\<close> rearranges the history, later attacks before earlier ones.\<close>

lemma mostRecentFirst_order:
  "mset (mostRecentFirst history) = mset history
   \<and> sorted_wrt (\<lambda>a b. ts b \<le> ts a) (mostRecentFirst history)"
proof -
  have "sorted (map (\<lambda>a. - ts a) (mostRecentFirst history))"
    by (simp add: mostRecentFirst_def)
  then have "sorted_wrt (\<lambda>a b. ts b \<le> ts a) (mostRecentFirst history)"
    by (simp add: sorted_map sorted_wrt_iff_nth_less)
  then show ?thesis by (simp add: mostRecentFirst_def)
qed

subsection \<open>The ships of the opponent's view\<close>

lemma toOpponentJSON_positions:
  "opp_positions (opp_board (fst (toOpponentJSON this))) =
     foldl reveal [] (map snd (positions (board this)))"
  by (simp add: toOpponentJSON_def Let_def)

text \<open>Under a ship type the view has the last sunk ship of that type, if there is one.\<close>

lemma map_of_reveal:
  "map_of (foldl reveal acc ships) t =
     (if \<exists>s \<in> set ships. sunk s \<and> ship_type s = t
      then Some (last (filter (\<lambda>s. sunk s \<and> ship_type s = t) ships))
      else map_of acc t)"
proof (induction ships rule: rev_induct)
  case Nil
  show ?case by simp
next
  case (snoc s ships)
  show ?case
  proof (cases "sunk s \<and> ship_type s = t")
    case True
    then show ?thesis by (simp add: reveal_def update_conv')
  next
    case False
    then have "map_of (foldl reveal acc (ships @ [s])) t = map_of (foldl reveal acc ships) t"
      by (auto simp: reveal_def update_conv')
    with False snoc show ?thesis by auto
  qed
qed

lemma distinct_reveal: "distinct (map fst acc) \<Longrightarrow> distinct (map fst (foldl reveal acc ships))"
  by (induction ships arbitrary: acc) (simp_all add: reveal_def distinct_update)

section \<open>The constructor's score\<close>




section \<open>The snapshot round trip\<close>

text \<open>
  C7. A player made by \<open>MatchPlayer.from\<close> from \<open>p.toJSON()\<close> has the snapshot
  \<open>p.toJSON()\<close> again, but for the score, which is 0 where \<open>isNaN\<close> holds of the score
  of \<open>p\<close>; where it does not, as for every number but \<open>NaN\<close>, the two snapshots are
  equal.
\<close>

theorem snapshot_round_trip:
  "toJSON (MatchPlayer_from getCellCoverage ShipSize randomLayout (toJSON p)) =
     (toJSON p)\<lparr> data_score := (if isNaN (score p) then Number (Num 0) else score p) \<rparr>
   \<and> (\<not> isNaN (score p) \<longrightarrow>
        toJSON (MatchPlayer_from getCellCoverage ShipSize randomLayout (toJSON p)) = toJSON p)
   \<and> (\<forall>n. score p = Number n \<and> n \<noteq> NaN \<longrightarrow>
        toJSON (MatchPlayer_from getCellCoverage ShipSize randomLayout (toJSON p)) = toJSON p)"
  by (simp add: toJSON_def MatchPlayer_from_def MatchPlayer_constructor_def getUUID_def
      getMatchInstanceUUID_def)

theorem snapshot_round_trip_witness:
  "score examplePlayer = Number (Num 0)
   \<and> toJSON (MatchPlayer_from expandCells exampleSizes [] (toJSON examplePlayer)) =
       toJSON examplePlayer"
proof -
  have s: "score examplePlayer = Number (Num 0)"
    by (simp add: examplePlayer_def MatchPlayer_constructor_def exampleOpts_def)
  then have "\<not> isNaN (score examplePlayer)" by simp
  with s snapshot_round_trip[of expandCells exampleSizes "[]" examplePlayer]
  show ?thesis by blast
qed

section \<open>A miss changes nothing\<close>

text \<open>
  C3. When the attacked origin is the origin of no cell of any ship that is not sunk, in
  particular when no ship covers it, \<open>determineAttackResult\<close> returns the miss
  \<open>{hit: false, origin}\<close> and the player's state is as before.
\<close>

theorem determineAttackResult_miss:
  assumes "\<forall>(key, ship) \<in> set (positions (board this)).
             \<not> sunk ship \<longrightarrow>
             (\<forall>c \<in> set (cells ship). \<not> isSameOrigin (cell_origin c) (atk_origin atk))"
  shows "determineAttackResult this atk = (Miss (atk_origin atk), this)"
proof -
  have "\<forall>i<length (positions (board this)).
          \<not> takesHit (atk_origin atk) (snd (positions (board this) ! i))"
  proof (intro allI impI)
    fix i
    assume "i < length (positions (board this))"
    then have "positions (board this) ! i \<in> set (positions (board this))"
      by simp
    with assms show "\<not> takesHit (atk_origin atk) (snd (positions (board this) ! i))"
      by (cases "positions (board this) ! i") (auto simp: takesHit_def list_ex_iff)
  qed
  then have "attackShips (positions (board this)) (atk_origin atk)
               = (Miss (atk_origin atk), positions (board this))"
    by (rule attackShips_none)
  then show ?thesis
    by (simp add: determineAttackResult_def)
qed

theorem determineAttackResult_miss_witness:
  "determineAttackResult examplePlayer \<lparr> atk_origin = (5, 5), prediction = None \<rparr>
     = (Miss (5, 5), examplePlayer)"
  using determineAttackResult_miss[of examplePlayer "\<lparr> atk_origin = (5, 5), prediction = None \<rparr>"]
  by (simp add: examplePlayer_board isSameOrigin_def)

section \<open>What one attack changes\<close>

text \<open>
  C10. A call of \<open>determineAttackResult\<close> leaves the attacks, the score, the board's
  valid flag and the identity fields as they are. Either no ship takes the hit, and the
  result is the miss and the player is unchanged; or the ships are as before but for one,
  the first in property order that is not sunk and has a cell at the origin: of that ship
  the first cell at the origin has its hit flag set, and its sunk flag is set when all its
  cells are hit now.
\<close>

theorem determineAttackResult_frame:
  assumes "determineAttackResult this atk = (r, this')"
  shows "attacks this' = attacks this \<and> score this' = score this
       \<and> valid (board this') = valid (board this)
       \<and> uuid this' = uuid this \<and> username this' = username this
       \<and> isAi this' = isAi this \<and> match this' = match this
       \<and> ((r = Miss (atk_origin atk) \<and> this' = this
            \<and> (\<forall>i<length (positions (board this)).
                  \<not> takesHit (atk_origin atk) (snd (positions (board this) ! i))))
          \<or> (\<exists>i j. i < length (positions (board this))
                \<and> takesHit (atk_origin atk) (snd (positions (board this) ! i))
                \<and> (\<forall>i'<i. \<not> takesHit (atk_origin atk) (snd (positions (board this) ! i')))
                \<and> j < length (cells (snd (positions (board this) ! i)))
                \<and> isSameOrigin (cell_origin (cells (snd (positions (board this) ! i)) ! j))
                      (atk_origin atk)
                \<and> (\<forall>j'<j. \<not> isSameOrigin
                      (cell_origin (cells (snd (positions (board this) ! i)) ! j')) (atk_origin atk))
                \<and> r = Hit (cell_origin (cells (snd (positions (board this) ! i)) ! j))
                        (cell_type (cells (snd (positions (board this) ! i)) ! j))
                        (sunk (hitShip (snd (positions (board this) ! i)) j))
                \<and> positions (board this') =
                    (positions (board this))
                      [i := (fst (positions (board this) ! i),
                             hitShip (snd (positions (board this) ! i)) j)]))"
proof -
  let ?ps = "positions (board this)" and ?o = "atk_origin atk"
  have r: "r = fst (attackShips ?ps ?o)"
    and t: "this' = this\<lparr> board := (board this)\<lparr> positions := snd (attackShips ?ps ?o) \<rparr> \<rparr>"
    using assms by (simp_all add: determineAttackResult_attackShips)
  have frame: "attacks this' = attacks this \<and> score this' = score this
       \<and> valid (board this') = valid (board this)
       \<and> uuid this' = uuid this \<and> username this' = username this
       \<and> isAi this' = isAi this \<and> match this' = match this"
    by (simp add: t)
  from attackShips_cases[of ?ps ?o] show ?thesis
  proof
    assume none: "\<forall>i<length ?ps. \<not> takesHit ?o (snd (?ps ! i))"
    then have "attackShips ?ps ?o = (Miss ?o, ?ps)" by (rule attackShips_none)
    with r t have "r = Miss ?o \<and> this' = this" by simp
    with frame none show ?thesis by blast
  next
    assume "\<exists>i j. i < length ?ps \<and> (\<forall>i'<i. \<not> takesHit ?o (snd (?ps ! i')))
          \<and> \<not> sunk (snd (?ps ! i)) \<and> j < length (cells (snd (?ps ! i)))
          \<and> isSameOrigin (cell_origin (cells (snd (?ps ! i)) ! j)) ?o
          \<and> (\<forall>j'<j. \<not> isSameOrigin (cell_origin (cells (snd (?ps ! i)) ! j')) ?o)"
    then obtain i j where ij: "i < length ?ps" "\<forall>i'<i. \<not> takesHit ?o (snd (?ps ! i'))"
      "\<not> sunk (snd (?ps ! i))" "j < length (cells (snd (?ps ! i)))"
      "isSameOrigin (cell_origin (cells (snd (?ps ! i)) ! j)) ?o"
      "\<forall>j'<j. \<not> isSameOrigin (cell_origin (cells (snd (?ps ! i)) ! j')) ?o"
      by blast
    have th: "takesHit ?o (snd (?ps ! i))"
      using ij(3,4,5) by (auto simp: takesHit_def list_ex_iff)
    have a: "attackShips ?ps ?o =
       (Hit (cell_origin (cells (snd (?ps ! i)) ! j)) (cell_type (cells (snd (?ps ! i)) ! j))
          (list_all cell_hit (cells (hitShip (snd (?ps ! i)) j))),
        ?ps[i := (fst (?ps ! i), hitShip (snd (?ps ! i)) j)])"
      using ij by (rule attackShips_at)
    have "r = Hit (cell_origin (cells (snd (?ps ! i)) ! j)) (cell_type (cells (snd (?ps ! i)) ! j))
                (sunk (hitShip (snd (?ps ! i)) j))"
      and "positions (board this') = ?ps[i := (fst (?ps ! i), hitShip (snd (?ps ! i)) j)]"
      using a r t hitShip_consistent[of "snd (?ps ! i)" j] by simp_all
    with frame ij th show ?thesis by blast
  qed
qed

theorem determineAttackResult_frame_witness:
  "attacks (snd (determineAttackResult fleetPlayer \<lparr> atk_origin = (1, 2), prediction = None \<rparr>))
     = attacks fleetPlayer
   \<and> score (snd (determineAttackResult fleetPlayer \<lparr> atk_origin = (1, 2), prediction = None \<rparr>))
     = score fleetPlayer
   \<and> valid (board (snd (determineAttackResult fleetPlayer
        \<lparr> atk_origin = (1, 2), prediction = None \<rparr>)))
     = valid (board fleetPlayer)
   \<and> uuid (snd (determineAttackResult fleetPlayer \<lparr> atk_origin = (1, 2), prediction = None \<rparr>))
     = uuid fleetPlayer
   \<and> fst (determineAttackResult fleetPlayer \<lparr> atk_origin = (1, 2), prediction = None \<rparr>)
     = Hit (1, 2) ''Submarine'' True
   \<and> positions (board (snd (determineAttackResult fleetPlayer
        \<lparr> atk_origin = (1, 2), prediction = None \<rparr>)))
     = (positions (board fleetPlayer))
         [1 := (''Submarine'', hitShip (snd (positions (board fleetPlayer) ! 1)) 1)]"
proof -
  let ?atk = "\<lparr> atk_origin = (1, 2), prediction = None \<rparr>"
  have call: "determineAttackResult fleetPlayer ?atk =
      (fst (determineAttackResult fleetPlayer ?atk), snd (determineAttackResult fleetPlayer ?atk))"
    by simp
  have r: "fst (determineAttackResult fleetPlayer ?atk) = Hit (1, 2) ''Submarine'' True"
    and ps: "positions (board (snd (determineAttackResult fleetPlayer ?atk)))
     = (positions (board fleetPlayer))
         [1 := (''Submarine'', hitShip (snd (positions (board fleetPlayer) ! 1)) 1)]"
    by (simp_all add: determineAttackResult_def fleetPlayer_positions isSameOrigin_def
        hitShip_def)
  from determineAttackResult_frame[OF call] r ps show ?thesis
    by blast
qed

section \<open>Sunk means every cell hit\<close>




section \<open>The last cell of a ship\<close>

text \<open>
  C4, as the code has it. Let a ship be not sunk with exactly one cell not hit, and let
  the attack be at that cell's origin, where no ship earlier in property order takes the
  hit and no earlier cell of the ship lies. Then the result is a hit with
  \<open>destroyed = true\<close>, the ship is sunk afterwards with all its cells hit, and every later
  attack at an origin that no other ship covers is a miss that changes nothing.
\<close>

theorem determineAttackResult_last_cell:
  assumes i: "i < length (positions (board this))"
    and ship: "ship = snd (positions (board this) ! i)"
    and unsunk: "\<not> sunk ship"
    and j: "j < length (cells ship)"
    and unhit: "\<not> cell_hit (cells ship ! j)"
    and others: "\<forall>j'<length (cells ship). j' \<noteq> j \<longrightarrow> cell_hit (cells ship ! j')"
    and origin: "atk_origin atk = cell_origin (cells ship ! j)"
    and first_cell: "\<forall>j'<j. \<not> isSameOrigin (cell_origin (cells ship ! j')) (atk_origin atk)"
    and first_ship: "\<forall>i'<i. \<not> takesHit (atk_origin atk) (snd (positions (board this) ! i'))"
    and call: "determineAttackResult this atk = (r, this')"
  shows "r = Hit (atk_origin atk) (cell_type (cells ship ! j)) True
       \<and> sunk (snd (positions (board this') ! i))
       \<and> list_all cell_hit (cells (snd (positions (board this') ! i)))
       \<and> (\<forall>atk'. (\<forall>i'<length (positions (board this')). i' \<noteq> i \<longrightarrow>
                     \<not> list_ex (\<lambda>c. isSameOrigin (cell_origin c) (atk_origin atk'))
                          (cells (snd (positions (board this') ! i'))))
                  \<longrightarrow> determineAttackResult this' atk' = (Miss (atk_origin atk'), this'))"
proof -
  let ?ps = "positions (board this)" and ?o = "atk_origin atk"
  have same: "isSameOrigin (cell_origin (cells (snd (?ps ! i)) ! j)) ?o"
    using origin ship by (simp add: isSameOrigin_def)
  have a: "attackShips ?ps ?o =
     (Hit (cell_origin (cells (snd (?ps ! i)) ! j)) (cell_type (cells (snd (?ps ! i)) ! j))
        (list_all cell_hit (cells (hitShip (snd (?ps ! i)) j))),
      ?ps[i := (fst (?ps ! i), hitShip (snd (?ps ! i)) j)])"
    using i first_ship unsunk j same first_cell unfolding ship
    by (intro attackShips_at) simp_all
  have all_hit: "list_all cell_hit (cells (hitShip ship j))"
    using j others by (auto simp: hitShip_def Let_def list_all_length nth_list_update)
  then have now_sunk: "sunk (hitShip ship j)"
    by (simp add: hitShip_def Let_def)
  have r: "r = fst (attackShips ?ps ?o)"
    and t: "this' = this\<lparr> board := (board this)\<lparr> positions := snd (attackShips ?ps ?o) \<rparr> \<rparr>"
    using call by (simp_all add: determineAttackResult_attackShips)
  have ps': "positions (board this') = ?ps[i := (fst (?ps ! i), hitShip ship j)]"
    using a t ship by simp
  have 1: "r = Hit ?o (cell_type (cells ship ! j)) True"
    using r a all_hit origin ship by simp
  have at_i: "snd (positions (board this') ! i) = hitShip ship j"
    using ps' i by simp
  have 4: "determineAttackResult this' atk' = (Miss (atk_origin atk'), this')"
    if alone: "\<forall>i'<length (positions (board this')). i' \<noteq> i \<longrightarrow>
                     \<not> list_ex (\<lambda>c. isSameOrigin (cell_origin c) (atk_origin atk'))
                          (cells (snd (positions (board this') ! i')))" for atk'
  proof -
    have "\<forall>i'<length (positions (board this')).
            \<not> takesHit (atk_origin atk') (snd (positions (board this') ! i'))"
    proof (intro allI impI)
      fix i' assume i': "i' < length (positions (board this'))"
      show "\<not> takesHit (atk_origin atk') (snd (positions (board this') ! i'))"
      proof (cases "i' = i")
        case True
        with at_i now_sunk show ?thesis by (simp add: takesHit_def)
      next
        case False
        with alone i' show ?thesis by (simp add: takesHit_def)
      qed
    qed
    then have "attackShips (positions (board this')) (atk_origin atk')
                 = (Miss (atk_origin atk'), positions (board this'))"
      by (rule attackShips_none)
    then show ?thesis
      by (simp add: determineAttackResult_attackShips)
  qed
  from 1 at_i now_sunk all_hit 4 show ?thesis by simp
qed

theorem determineAttackResult_last_cell_witness:
  "determineAttackResult fleetPlayer \<lparr> atk_origin = (1, 2), prediction = None \<rparr> =
     (Hit (1, 2) ''Submarine'' True,
      snd (determineAttackResult fleetPlayer \<lparr> atk_origin = (1, 2), prediction = None \<rparr>))
   \<and> sunk (snd (positions (board
        (snd (determineAttackResult fleetPlayer \<lparr> atk_origin = (1, 2), prediction = None \<rparr>))) ! 1))
   \<and> determineAttackResult
        (snd (determineAttackResult fleetPlayer \<lparr> atk_origin = (1, 2), prediction = None \<rparr>))
        \<lparr> atk_origin = (0, 2), prediction = None \<rparr> =
     (Miss (0, 2),
      snd (determineAttackResult fleetPlayer \<lparr> atk_origin = (1, 2), prediction = None \<rparr>))"
proof -
  let ?atk = "\<lparr> atk_origin = (1, 2), prediction = None \<rparr>"
  let ?p' = "snd (determineAttackResult fleetPlayer ?atk)"
  let ?ship = "snd (positions (board fleetPlayer) ! 1)"
  have alone: "\<forall>i'<length (positions (board ?p')). i' \<noteq> 1 \<longrightarrow>
                     \<not> list_ex (\<lambda>c. isSameOrigin (cell_origin c)
                            (atk_origin \<lparr> atk_origin = (0, 2), prediction = None \<rparr>))
                          (cells (snd (positions (board ?p') ! i')))"
    by (simp add: determineAttackResult_def fleetPlayer_positions isSameOrigin_def less_Suc_eq)
  have "1 < length (positions (board fleetPlayer))"
    and "\<not> sunk ?ship" and "1 < length (cells ?ship)" and "\<not> cell_hit (cells ?ship ! 1)"
    and "\<forall>j'<length (cells ?ship). j' \<noteq> 1 \<longrightarrow> cell_hit (cells ?ship ! j')"
    and "atk_origin ?atk = cell_origin (cells ?ship ! 1)"
    and "\<forall>j'<1. \<not> isSameOrigin (cell_origin (cells ?ship ! j')) (atk_origin ?atk)"
    and "\<forall>i'<1. \<not> takesHit (atk_origin ?atk) (snd (positions (board fleetPlayer) ! i'))"
    and "determineAttackResult fleetPlayer ?atk = (fst (determineAttackResult fleetPlayer ?atk), ?p')"
    by (simp_all add: fleetPlayer_positions isSameOrigin_def takesHit_def less_Suc_eq)
  from determineAttackResult_last_cell[OF this(1) refl this(2-9)]
  have res: "fst (determineAttackResult fleetPlayer ?atk) =
        Hit (atk_origin ?atk) (cell_type (cells ?ship ! 1)) True
     \<and> sunk (snd (positions (board ?p') ! 1))
     \<and> list_all cell_hit (cells (snd (positions (board ?p') ! 1)))
     \<and> (\<forall>atk'. (\<forall>i'<length (positions (board ?p')). i' \<noteq> 1 \<longrightarrow>
                     \<not> list_ex (\<lambda>c. isSameOrigin (cell_origin c) (atk_origin atk'))
                          (cells (snd (positions (board ?p') ! i'))))
                  \<longrightarrow> determineAttackResult ?p' atk' = (Miss (atk_origin atk'), ?p'))" .
  then have 1: "fst (determineAttackResult fleetPlayer ?atk) = Hit (1, 2) ''Submarine'' True"
    by (simp add: fleetPlayer_positions)
  from res have 2: "sunk (snd (positions (board ?p') ! 1))"
    by blast
  from res alone
  have "determineAttackResult ?p' \<lparr> atk_origin = (0, 2), prediction = None \<rparr> =
      (Miss (atk_origin \<lparr> atk_origin = (0, 2), prediction = None \<rparr>), ?p')"
    by blast
  with 1 2 show ?thesis
    by (simp add: prod_eq_iff)
qed

text \<open>
  C4 as stated fails where ships overlap. In \<open>overlapPlayer\<close> the submarine is not sunk
  and its one cell that is not hit is at \<open>(0, 0)\<close>; the destroyer, which comes first,
  has a cell there too. The attack at \<open>(0, 0)\<close> hits the destroyer, nothing is destroyed
  and the submarine is as before.
\<close>

theorem determineAttackResult_earlier_ship_takes_hit:
  "map (\<lambda>(key, ship). (key, sunk ship, map (\<lambda>c. (cell_origin c, cell_hit c)) (cells ship)))
      (positions (board overlapPlayer))
     = [(''Destroyer'', False, [((0, 0), False), ((1, 0), False)]),
        (''Submarine'', False, [((0, 0), False), ((0, 1), True)])]
   \<and> fst (determineAttackResult overlapPlayer \<lparr> atk_origin = (0, 0), prediction = None \<rparr>)
       = Hit (0, 0) ''Destroyer'' False
   \<and> map (\<lambda>(key, ship). (key, sunk ship, map (\<lambda>c. (cell_origin c, cell_hit c)) (cells ship)))
      (positions (board (snd (determineAttackResult overlapPlayer
          \<lparr> atk_origin = (0, 0), prediction = None \<rparr>))))
     = [(''Destroyer'', False, [((0, 0), True), ((1, 0), False)]),
        (''Submarine'', False, [((0, 0), False), ((0, 1), True)])]"
  by (simp add: determineAttackResult_def overlapPlayer_positions isSameOrigin_def)

section \<open>The run of hits\<close>

text \<open>
  C5. With the history ordered most recent first, \<open>getContinuousHitsCount\<close> returns the
  length of the longest run of hits at its front: that many attacks from the most recent
  on are hits, and the next one, if there is one, is a miss. It is 0 for an empty history
  and when the most recent attack was a miss.
\<close>

theorem getContinuousHitsCount_run:
  "getContinuousHitsCount this \<le> length (attacks this)
   \<and> (\<forall>i<getContinuousHitsCount this.
         result_hit (result (mostRecentFirst (attacks this) ! i)))
   \<and> (getContinuousHitsCount this < length (attacks this) \<longrightarrow>
         \<not> result_hit (result (mostRecentFirst (attacks this) ! getContinuousHitsCount this)))
   \<and> (attacks this = [] \<longrightarrow> getContinuousHitsCount this = 0)
   \<and> (attacks this \<noteq> [] \<and> \<not> result_hit (result (hd (mostRecentFirst (attacks this)))) \<longrightarrow>
         getContinuousHitsCount this = 0)"
proof -
  let ?s = "mostRecentFirst (attacks this)"
  let ?hit = "\<lambda>a. result_hit (result a)"
  have n: "getContinuousHitsCount this = length (takeWhile ?hit ?s)"
    by (simp add: getContinuousHitsCount_def countHits_takeWhile
        attacksInTimeOrder_mostRecentFirst)
  have len: "length ?s = length (attacks this)"
    by (simp add: mostRecentFirst_def)
  have 1: "getContinuousHitsCount this \<le> length (attacks this)"
    using length_takeWhile_le[of ?hit ?s] by (simp add: n len)
  have 2: "\<forall>i<getContinuousHitsCount this. ?hit (?s ! i)"
  proof (intro allI impI)
    fix i assume i: "i < getContinuousHitsCount this"
    then have "takeWhile ?hit ?s ! i = ?s ! i"
      by (simp add: n takeWhile_nth)
    moreover have "takeWhile ?hit ?s ! i \<in> set (takeWhile ?hit ?s)"
      using i by (simp add: n)
    ultimately show "?hit (?s ! i)"
      using set_takeWhileD by metis
  qed
  have 3: "getContinuousHitsCount this < length (attacks this) \<longrightarrow>
         \<not> ?hit (?s ! getContinuousHitsCount this)"
    using nth_length_takeWhile[of ?hit ?s] by (simp add: n len)
  have 4: "attacks this = [] \<longrightarrow> getContinuousHitsCount this = 0"
    by (simp add: n mostRecentFirst_def)
  have 5: "attacks this \<noteq> [] \<and> \<not> ?hit (hd ?s) \<longrightarrow> getContinuousHitsCount this = 0"
  proof
    assume a: "attacks this \<noteq> [] \<and> \<not> ?hit (hd ?s)"
    then have "?s \<noteq> []" using len by auto
    with a show "getContinuousHitsCount this = 0"
      by (cases ?s) (simp_all add: n)
  qed
  from 1 2 3 4 5 show ?thesis by blast
qed

theorem getContinuousHitsCount_run_witness:
  "map ts (attacks examplePlayer) = [10, 30, 20]
   \<and> map ts (mostRecentFirst (attacks examplePlayer)) = [30, 20, 10]
   \<and> getContinuousHitsCount examplePlayer = 2
   \<and> result_hit (result (mostRecentFirst (attacks examplePlayer) ! 0))
   \<and> result_hit (result (mostRecentFirst (attacks examplePlayer) ! 1))
   \<and> \<not> result_hit (result (mostRecentFirst (attacks examplePlayer) ! 2))"
proof -
  have n: "getContinuousHitsCount examplePlayer = 2"
    by (simp add: getContinuousHitsCount_def attacksInTimeOrder_def array_sort_def compareTs_def
        examplePlayer_attacks exampleAttacks_def)
  have l: "length (attacks examplePlayer) = 3"
    by (simp add: examplePlayer_attacks exampleAttacks_def)
  have t: "map ts (attacks examplePlayer) = [10, 30, 20]"
    "map ts (mostRecentFirst (attacks examplePlayer)) = [30, 20, 10]"
    by (simp_all add: examplePlayer_attacks exampleAttacks_def mostRecentFirst_def)
  from getContinuousHitsCount_run[of examplePlayer] n l t show ?thesis
    by simp
qed

section \<open>The opponent's view of the board\<close>

text \<open>
  C6. The board of \<open>toOpponentJSON\<close> has an entry for a ship type exactly when a stored
  ship of that type is sunk, and every entry is a stored ship that is sunk, under its own
  type: no ship that is not sunk appears. On a board whose ships are stored under their
  own types, the entry for a ship type is the stored ship of that type if it is sunk, and
  there is none otherwise.
\<close>

theorem toOpponentJSON_reveals_sunk_only:
  "(\<forall>t. (map_of (opp_positions (opp_board (fst (toOpponentJSON this)))) t \<noteq> None) =
          (\<exists>ship \<in> snd ` set (positions (board this)). ship_type ship = t \<and> sunk ship))
   \<and> (\<forall>(t, ship) \<in> set (opp_positions (opp_board (fst (toOpponentJSON this)))).
          ship \<in> snd ` set (positions (board this)) \<and> sunk ship \<and> ship_type ship = t)
   \<and> (distinct (map fst (positions (board this)))
        \<and> (\<forall>(key, ship) \<in> set (positions (board this)). ship_type ship = key) \<longrightarrow>
      (\<forall>t. map_of (opp_positions (opp_board (fst (toOpponentJSON this)))) t =
            (case map_of (positions (board this)) t of
               None \<Rightarrow> None
             | Some ship \<Rightarrow> if sunk ship then Some ship else None)))"
proof -
  let ?ps = "positions (board this)"
  let ?ships = "map snd ?ps"
  let ?shown = "opp_positions (opp_board (fst (toOpponentJSON this)))"
  have shown: "?shown = foldl reveal [] ?ships"
    by (rule toOpponentJSON_positions)
  have m: "map_of ?shown t =
     (if \<exists>s \<in> set ?ships. sunk s \<and> ship_type s = t
      then Some (last (filter (\<lambda>s. sunk s \<and> ship_type s = t) ?ships))
      else None)" for t
    by (simp only: shown map_of_reveal) simp
  have in_filter: "last (filter (\<lambda>s. sunk s \<and> ship_type s = t) ?ships)
          \<in> set (filter (\<lambda>s. sunk s \<and> ship_type s = t) ?ships)"
    if "\<exists>s \<in> set ?ships. sunk s \<and> ship_type s = t" for t
    using that by (intro last_in_set) (auto simp: filter_empty_conv)
  have some: "s \<in> set ?ships \<and> sunk s \<and> ship_type s = t" if "map_of ?shown t = Some s" for t s
  proof -
    from that m[of t] have ex: "\<exists>s \<in> set ?ships. sunk s \<and> ship_type s = t"
      and s: "s = last (filter (\<lambda>s. sunk s \<and> ship_type s = t) ?ships)"
      by (auto split: if_splits)
    from in_filter[OF ex] s show ?thesis by simp
  qed
  have 1: "\<forall>t. (map_of ?shown t \<noteq> None) = (\<exists>ship \<in> snd ` set ?ps. ship_type ship = t \<and> sunk ship)"
    using m by auto
  have d: "distinct (map fst ?shown)"
    unfolding shown by (rule distinct_reveal) simp
  have 2: "\<forall>(t, ship) \<in> set ?shown. ship \<in> snd ` set ?ps \<and> sunk ship \<and> ship_type ship = t"
  proof (clarify)
    fix t ship assume "(t, ship) \<in> set ?shown"
    with d have "map_of ?shown t = Some ship" by simp
    from some[OF this] show "ship \<in> snd ` set ?ps \<and> sunk ship \<and> ship_type ship = t" by simp
  qed
  have 3: "\<forall>t. map_of ?shown t =
            (case map_of ?ps t of None \<Rightarrow> None | Some ship \<Rightarrow> if sunk ship then Some ship else None)"
    if wf: "distinct (map fst ?ps)" "\<forall>(key, ship) \<in> set ?ps. ship_type ship = key"
  proof
    fix t
    have only: "map_of ?ps t = Some s" if "s \<in> set ?ships" "ship_type s = t" for s
    proof -
      from that(1) obtain key where "(key, s) \<in> set ?ps" by auto
      moreover with wf(2) that(2) have "key = t" by auto
      ultimately show ?thesis using wf(1) by simp
    qed
    show "map_of ?shown t =
            (case map_of ?ps t of None \<Rightarrow> None | Some ship \<Rightarrow> if sunk ship then Some ship else None)"
    proof (cases "\<exists>s \<in> set ?ships. sunk s \<and> ship_type s = t")
      case True
      let ?l = "last (filter (\<lambda>s. sunk s \<and> ship_type s = t) ?ships)"
      from in_filter[OF True] have l: "?l \<in> set ?ships" "sunk ?l" "ship_type ?l = t"
        by simp_all
      from only[OF l(1) l(3)] l(2) m[of t] True show ?thesis by simp
    next
      case False
      then have "map_of ?shown t = None" using m[of t] by simp
      moreover have "(case map_of ?ps t of None \<Rightarrow> None
                       | Some ship \<Rightarrow> if sunk ship then Some ship else None) = None"
      proof (cases "map_of ?ps t")
        case None
        then show ?thesis by simp
      next
        case (Some s)
        then have "(t, s) \<in> set ?ps" by (rule map_of_SomeD)
        then have "s \<in> set ?ships" "ship_type s = t"
          using wf(2) by force+
        with False have "\<not> sunk s" by blast
        with Some show ?thesis by simp
      qed
      ultimately show ?thesis by simp
    qed
  qed
  from 1 2 3 show ?thesis by blast
qed

theorem toOpponentJSON_reveals_sunk_only_witness:
  "map (\<lambda>(key, ship). (key, sunk ship)) (positions (board fleetPlayer))
     = [(''Destroyer'', True), (''Submarine'', False)]
   \<and> map_of (opp_positions (opp_board (fst (toOpponentJSON fleetPlayer)))) ''Destroyer''
       = map_of (positions (board fleetPlayer)) ''Destroyer''
   \<and> map_of (opp_positions (opp_board (fst (toOpponentJSON fleetPlayer)))) ''Destroyer'' \<noteq> None
   \<and> map_of (opp_positions (opp_board (fst (toOpponentJSON fleetPlayer)))) ''Submarine'' = None"
proof -
  have wf: "distinct (map fst (positions (board fleetPlayer)))
        \<and> (\<forall>(key, ship) \<in> set (positions (board fleetPlayer)). ship_type ship = key)"
    by (simp add: fleetPlayer_positions)
  from toOpponentJSON_reveals_sunk_only[of fleetPlayer] wf
  have "\<forall>t. map_of (opp_positions (opp_board (fst (toOpponentJSON fleetPlayer)))) t =
            (case map_of (positions (board fleetPlayer)) t of
               None \<Rightarrow> None
             | Some ship \<Rightarrow> if sunk ship then Some ship else None)"
    by blast
  then show ?thesis
    by (simp add: fleetPlayer_positions)
qed

section \<open>Placements and cell counts\<close>



section \<open>The stored attacks after \<open>toOpponentJSON\<close>\<close>

text \<open>
  C1. The claim is that \<open>toOpponentJSON\<close> leaves the stored attack records as they were.
  The code deletes the prediction in the stored payload: the second attack of
  \<open>examplePlayer\<close> carries a prediction before the call and none after it.
\<close>

theorem toOpponentJSON_deletes_stored_prediction:
  "map (\<lambda>a. prediction (attack a)) (attacks examplePlayer) = [None, Some ''0.8'', None]
   \<and> map (\<lambda>a. prediction (attack a)) (attacks (snd (toOpponentJSON examplePlayer)))
       = [None, None, None]
   \<and> snd (toOpponentJSON examplePlayer) \<noteq> examplePlayer"
proof -
  have a: "map (\<lambda>a. prediction (attack a)) (attacks examplePlayer) = [None, Some ''0.8'', None]"
    by (simp add: examplePlayer_attacks exampleAttacks_def)
  have b: "map (\<lambda>a. prediction (attack a)) (attacks (snd (toOpponentJSON examplePlayer)))
       = [None, None, None]"
    by (simp add: toOpponentJSON_def Let_def examplePlayer_attacks exampleAttacks_def)
  from a b have "snd (toOpponentJSON examplePlayer) \<noteq> examplePlayer"
    by auto
  with a b show ?thesis by blast
qed

end
